theory Spec2Isabelle
  imports Complex_Main
begin

section \<open>Region selection of the session route\<close>

text \<open>
  The development follows \<^verbatim>\<open>src/app/api/session/route.ts\<close>.

  A \<^verbatim>\<open>BrowserbaseRegion\<close> is a union of four string literals; the type is erased
  when the program runs, and both the timezone and the distribution table arrive as parsed
  JSON that is only cast to the declared types. Regions are therefore strings here, and
  membership in the enumeration is the predicate \<open>isBrowserbaseRegion\<close>.

  A JavaScript number is read as the real number it denotes (the numbers met here are
  finite), and comparison of numbers is comparison of reals. Addition and multiplication
  of numbers round their results, and \<^verbatim>\<open>String.prototype.toUpperCase\<close> follows the case
  mappings of Unicode. These three operations belong to the runtime, not to the module:
  they are parameters of the model, collected in the record \<open>runtime\<close>, and a theorem
  that needs a fact about one of them says so.
\<close>

record runtime =
  numberAdd :: "real \<Rightarrow> real \<Rightarrow> real"
  numberMultiply :: "real \<Rightarrow> real \<Rightarrow> real"
  toUpperCase :: "string \<Rightarrow> string"

type_synonym BrowserbaseRegion = string

definition BrowserbaseRegions :: "BrowserbaseRegion list" where
  "BrowserbaseRegions = [''us-west-2'', ''us-east-1'', ''eu-central-1'', ''ap-southeast-1'']"

definition isBrowserbaseRegion :: "string \<Rightarrow> bool" where
  "isBrowserbaseRegion s = (s \<in> set BrowserbaseRegions)"

text \<open>
  An object whose keys are strings is read through \<^verbatim>\<open>Object.entries\<close> by the selector,
  so a distribution row is the list of its entries in the order \<^verbatim>\<open>Object.entries\<close>
  yields them. The table itself is only indexed, so it is a map; a row that is missing
  or falsy is \<open>None\<close>.
\<close>

type_synonym DistributionRow = "(string \<times> real) list"

type_synonym DistributionTable = "string \<rightharpoonup> DistributionRow"

definition defaultDistributions :: DistributionTable where
  "defaultDistributions = map_of
    [(''us-west-2'',
        [(''us-west-2'', 100), (''us-east-1'', 0), (''eu-central-1'', 0), (''ap-southeast-1'', 0)]),
     (''us-east-1'',
        [(''us-east-1'', 100), (''us-west-2'', 0), (''eu-central-1'', 0), (''ap-southeast-1'', 0)]),
     (''eu-central-1'',
        [(''eu-central-1'', 100), (''us-west-2'', 0), (''us-east-1'', 0), (''ap-southeast-1'', 0)]),
     (''ap-southeast-1'',
        [(''ap-southeast-1'', 100), (''us-west-2'', 0), (''us-east-1'', 0), (''eu-central-1'', 0)])]"

text \<open>
  The \<^verbatim>\<open>for\<close> loop of \<^verbatim>\<open>selectRegionWithProbability\<close>: \<open>entries\<close> are the entries
  still to visit, \<open>cumulativeProbability\<close> the running total. \<open>Some region\<close> is the
  \<^verbatim>\<open>return\<close> inside the loop, \<open>None\<close> is the loop running to its end.
\<close>

fun ladder :: "runtime \<Rightarrow> DistributionRow \<Rightarrow> real \<Rightarrow> real \<Rightarrow> string option" where
  "ladder rt [] random cumulativeProbability = None"
| "ladder rt ((region, probability) # entries) random cumulativeProbability =
     (if random < numberAdd rt cumulativeProbability probability then Some region
      else ladder rt entries random (numberAdd rt cumulativeProbability probability))"

text \<open>
  Which of the three \<^verbatim>\<open>return\<close> statements of the selector is taken.
\<close>

datatype selection = NoRow | Picked string | Exhausted

text \<open>
  \<open>u\<close> is the value \<^verbatim>\<open>Math.random()\<close> returns, a number in \<open>[0, 1)\<close>; the draw
  compared with the running total is the runtime's product of \<open>u\<close> and 100.
\<close>

definition selectPath ::
    "runtime \<Rightarrow> BrowserbaseRegion \<Rightarrow> DistributionTable \<Rightarrow> real \<Rightarrow> selection" where
  "selectPath rt baseRegion distributions u =
     (case distributions baseRegion of
        None \<Rightarrow> NoRow
      | Some distribution \<Rightarrow>
          (let random = numberMultiply rt u 100 in
           case ladder rt distribution random 0 of
             Some region \<Rightarrow> Picked region
           | None \<Rightarrow> Exhausted))"

definition selectRegionWithProbability ::
    "runtime \<Rightarrow> BrowserbaseRegion \<Rightarrow> DistributionTable \<Rightarrow> real \<Rightarrow> string" where
  "selectRegionWithProbability rt baseRegion distributions u =
     (case selectPath rt baseRegion distributions u of
        NoRow \<Rightarrow> baseRegion
      | Picked region \<Rightarrow> region
      | Exhausted \<Rightarrow> baseRegion)"

section \<open>Values that arrive as JSON\<close>

text \<open>
  The request body and the timezone it carries are parsed JSON. \<^verbatim>\<open>undefined\<close> is
  \<open>None\<close> of \<open>json option\<close>. An object is the list of its entries.
\<close>

datatype json =
    JNull
  | JBool bool
  | JNumber real
  | JString string
  | JArray "json list"
  | JObject "(string \<times> json) list"

datatype error = TypeError | Thrown string

text \<open>What \<^verbatim>\<open>!v\<close> tests: \<^verbatim>\<open>undefined\<close>, \<^verbatim>\<open>null\<close>, \<^verbatim>\<open>false\<close>, \<^verbatim>\<open>0\<close> and the empty string are falsy.\<close>

fun truthy :: "json option \<Rightarrow> bool" where
  "truthy None = False"
| "truthy (Some JNull) = False"
| "truthy (Some (JBool b)) = b"
| "truthy (Some (JNumber n)) = (n \<noteq> 0)"
| "truthy (Some (JString s)) = (s \<noteq> [])"
| "truthy (Some (JArray xs)) = True"
| "truthy (Some (JObject kvs)) = True"

text \<open>
  Reading the property \<^verbatim>\<open>timezone\<close> or \<^verbatim>\<open>sessionId\<close> of a parsed body: \<^verbatim>\<open>null\<close>
  has no properties and the read throws; an object yields the entry or \<^verbatim>\<open>undefined\<close>;
  every other value has no property of these names.
\<close>

fun property :: "json \<Rightarrow> string \<Rightarrow> error + json option" where
  "property JNull name = Inl TypeError"
| "property (JObject kvs) name = Inr (map_of kvs name)"
| "property v name = Inr None"

section \<open>The timezone resolver\<close>

definition timezoneAbbreviationMap :: "string \<rightharpoonup> BrowserbaseRegion" where
  "timezoneAbbreviationMap = map_of
    [(''EST'', ''us-east-1''),
     (''EDT'', ''us-east-1''),
     (''PST'', ''us-west-2''),
     (''PDT'', ''us-west-2''),
     (''MST'', ''us-west-2''),
     (''MDT'', ''us-west-2''),
     (''CST'', ''us-east-1''),
     (''CDT'', ''us-east-1''),
     (''GMT'', ''eu-central-1''),
     (''BST'', ''eu-central-1''),
     (''CET'', ''eu-central-1''),
     (''CEST'', ''eu-central-1''),
     (''EET'', ''eu-central-1''),
     (''EEST'', ''eu-central-1''),
     (''WET'', ''eu-central-1''),
     (''WEST'', ''eu-central-1''),
     (''JST'', ''ap-southeast-1''),
     (''KST'', ''ap-southeast-1''),
     (''IST'', ''ap-southeast-1''),
     (''AEST'', ''ap-southeast-1''),
     (''AEDT'', ''ap-southeast-1''),
     (''AWST'', ''ap-southeast-1''),
     (''NZST'', ''ap-southeast-1''),
     (''NZDT'', ''ap-southeast-1'')]"

text \<open>
  The \<^verbatim>\<open>try\<close> block of \<^verbatim>\<open>getRegionFromTimezoneAbbr\<close>. The argument is whatever the
  body carried under \<^verbatim>\<open>timezone\<close>. A truthy value that is not a string has no
  \<^verbatim>\<open>toUpperCase\<close> method, and calling it throws a \<^verbatim>\<open>TypeError\<close>.
\<close>

definition tryGetRegionFromTimezoneAbbr ::
    "runtime \<Rightarrow> json option \<Rightarrow> error + BrowserbaseRegion" where
  "tryGetRegionFromTimezoneAbbr rt timezoneAbbr =
     (if \<not> truthy timezoneAbbr then Inr ''us-west-2''
      else case timezoneAbbr of
          Some (JString s) \<Rightarrow>
            (case timezoneAbbreviationMap (toUpperCase rt s) of
               Some region \<Rightarrow> if region \<noteq> [] then Inr region else Inr ''us-west-2''
             | None \<Rightarrow> Inr ''us-west-2'')
        | _ \<Rightarrow> Inl TypeError)"

text \<open>The whole function: the \<^verbatim>\<open>catch\<close> clause maps every error to \<^verbatim>\<open>us-west-2\<close>.\<close>

definition getRegionFromTimezoneAbbr :: "runtime \<Rightarrow> json option \<Rightarrow> BrowserbaseRegion" where
  "getRegionFromTimezoneAbbr rt timezoneAbbr =
     (case tryGetRegionFromTimezoneAbbr rt timezoneAbbr of
        Inr region \<Rightarrow> region
      | Inl e \<Rightarrow> ''us-west-2'')"

section \<open>The session broker\<close>

record EdgeConfig =
  advancedStealth :: "bool option"
  proxies :: "bool option"
  regionDistribution :: "DistributionTable option"

record Viewport =
  width :: int
  height :: int

record BrowserSettings =
  viewport :: Viewport
  blockAds :: bool
  advancedStealthSetting :: bool
  os :: "string option"

record SessionCreateParams =
  projectId :: string
  proxiesParam :: bool
  browserSettings :: BrowserSettings
  keepAlive :: bool
  region :: string

record SessionUpdateParams =
  updateProjectId :: string
  updateStatus :: string

record Session =
  session_id :: string
  connectUrl :: string

text \<open>
  Everything outside the module, as the handlers meet it: the runtime, the project id of
  the environment, the construction of the provider's client (which can throw), the outcome of
  \<^verbatim>\<open>await getAll()\<close> (\<open>Inl\<close> when it throws, \<open>Inr None\<close> when it yields a falsy
  value), the value of \<^verbatim>\<open>Math.random()\<close>, and the three calls of the provider.
\<close>

record collaborators =
  js :: runtime
  BROWSERBASE_PROJECT_ID :: string
  newBrowserbase :: "error + unit"
  getAll :: "error + EdgeConfig option"
  Math_random :: real
  sessions_create :: "SessionCreateParams \<Rightarrow> error + Session"
  sessions_update :: "json option \<Rightarrow> SessionUpdateParams \<Rightarrow> error + unit"
  sessions_debug :: "string \<Rightarrow> error + string"

definition emptyConfig :: EdgeConfig where
  "emptyConfig = \<lparr>advancedStealth = None, proxies = None, regionDistribution = None\<rparr>"

text \<open>
  The configuration \<^verbatim>\<open>createSession\<close> works with, from the outcome of the fetch:
  the fetched object, or the empty object when the fetch throws or yields a falsy value.
\<close>

definition loadConfig :: "error + EdgeConfig option \<Rightarrow> EdgeConfig" where
  "loadConfig fetched =
     (case fetched of
        Inl e \<Rightarrow> emptyConfig
      | Inr None \<Rightarrow> emptyConfig
      | Inr (Some config) \<Rightarrow> config)"

text \<open>The operator \<^verbatim>\<open>??\<close>.\<close>

definition nullish :: "'a option \<Rightarrow> 'a \<Rightarrow> 'a" where
  "nullish v d = (case v of None \<Rightarrow> d | Some x \<Rightarrow> x)"

definition advancedStealthOf :: "EdgeConfig \<Rightarrow> bool" where
  "advancedStealthOf config = nullish (advancedStealth config) True"

definition proxiesOf :: "EdgeConfig \<Rightarrow> bool" where
  "proxiesOf config = nullish (proxies config) True"

definition distributionsOf :: "EdgeConfig \<Rightarrow> DistributionTable" where
  "distributionsOf config = nullish (regionDistribution config) defaultDistributions"

definition browserSettingsOf :: "EdgeConfig \<Rightarrow> BrowserSettings" where
  "browserSettingsOf config =
     \<lparr>viewport = \<lparr>width = 2560, height = 1440\<rparr>,
      blockAds = True,
      advancedStealthSetting = advancedStealthOf config,
      os = (if advancedStealthOf config then Some ''windows'' else Some ''linux'')\<rparr>"

text \<open>The argument \<^verbatim>\<open>createSession\<close> passes to \<^verbatim>\<open>bb.sessions.create\<close>.\<close>

definition sessionCreateParams :: "collaborators \<Rightarrow> json option \<Rightarrow> SessionCreateParams" where
  "sessionCreateParams c timezone =
     (let config = loadConfig (getAll c);
          proxies = proxiesOf config;
          browserSettings = browserSettingsOf config;
          closestRegion = getRegionFromTimezoneAbbr (js c) timezone;
          distributions = distributionsOf config;
          finalRegion =
            selectRegionWithProbability (js c) closestRegion distributions (Math_random c)
      in \<lparr>projectId = BROWSERBASE_PROJECT_ID c,
          proxiesParam = proxies,
          browserSettings = browserSettings,
          keepAlive = True,
          region = finalRegion\<rparr>)"

definition createSession :: "collaborators \<Rightarrow> json option \<Rightarrow> error + Session" where
  "createSession c timezone =
     (case newBrowserbase c of
        Inl e \<Rightarrow> Inl e
      | Inr bb \<Rightarrow> sessions_create c (sessionCreateParams c timezone))"

definition endSession :: "collaborators \<Rightarrow> json option \<Rightarrow> error + unit" where
  "endSession c sessionId =
     (case newBrowserbase c of
        Inl e \<Rightarrow> Inl e
      | Inr bb \<Rightarrow>
          sessions_update c sessionId
            \<lparr>updateProjectId = BROWSERBASE_PROJECT_ID c, updateStatus = ''REQUEST_RELEASE''\<rparr>)"

definition getDebugUrl :: "collaborators \<Rightarrow> string \<Rightarrow> error + string" where
  "getDebugUrl c sessionId =
     (case newBrowserbase c of
        Inl e \<Rightarrow> Inl e
      | Inr bb \<Rightarrow> sessions_debug c sessionId)"

section \<open>The handlers\<close>

text \<open>
  A response is the status and the JSON payload of \<^verbatim>\<open>NextResponse.json\<close>, whose status
  is 200 when none is given. The argument \<open>request_json\<close> is the outcome of
  \<^verbatim>\<open>await request.json()\<close>.
\<close>

record response =
  status :: nat
  payload :: json

text \<open>The \<^verbatim>\<open>try\<close> block of \<^verbatim>\<open>POST\<close>.\<close>

definition tryPOST :: "collaborators \<Rightarrow> error + json \<Rightarrow> error + response" where
  "tryPOST c request_json =
     (case request_json of
        Inl e \<Rightarrow> Inl e
      | Inr body \<Rightarrow>
     (case property body ''timezone'' of
        Inl e \<Rightarrow> Inl e
      | Inr timezone \<Rightarrow>
     (case createSession c timezone of
        Inl e \<Rightarrow> Inl e
      | Inr session \<Rightarrow>
     (case getDebugUrl c (session_id session) of
        Inl e \<Rightarrow> Inl e
      | Inr liveUrl \<Rightarrow>
          Inr \<lparr>status = 200,
               payload = JObject
                 [(''success'', JBool True),
                  (''sessionId'', JString (session_id session)),
                  (''sessionUrl'', JString liveUrl),
                  (''connectUrl'', JString (connectUrl session))]\<rparr>))))"

definition failedToCreate :: response where
  "failedToCreate =
     \<lparr>status = 500,
      payload = JObject [(''success'', JBool False), (''error'', JString ''Failed to create session'')]\<rparr>"

definition POST :: "collaborators \<Rightarrow> error + json \<Rightarrow> response" where
  "POST c request_json =
     (case tryPOST c request_json of
        Inr r \<Rightarrow> r
      | Inl e \<Rightarrow> failedToCreate)"

text \<open>\<^verbatim>\<open>DELETE\<close> has no \<^verbatim>\<open>try\<close>: an error of any step is the outcome of the handler.\<close>

definition DELETE :: "collaborators \<Rightarrow> error + json \<Rightarrow> error + response" where
  "DELETE c request_json =
     (case request_json of
        Inl e \<Rightarrow> Inl e
      | Inr body \<Rightarrow>
     (case property body ''sessionId'' of
        Inl e \<Rightarrow> Inl e
      | Inr sessionId \<Rightarrow>
     (case endSession c sessionId of
        Inl e \<Rightarrow> Inl e
      | Inr u \<Rightarrow> Inr \<lparr>status = 200, payload = JObject [(''success'', JBool True)]\<rparr>)))"

section \<open>Well-formed rows\<close>

text \<open>
  The declared type of a row has keys in the enumeration only. Nothing in the program
  checks this; the predicate says it of the row the selector reads, if there is one.
\<close>

definition rowKeysEnumerated :: "DistributionTable \<Rightarrow> string \<Rightarrow> bool" where
  "rowKeysEnumerated distributions baseRegion =
     (case distributions baseRegion of
        None \<Rightarrow> True
      | Some row \<Rightarrow> list_all (\<lambda>(k, w). isBrowserbaseRegion k) row)"

text \<open>
  The running total the loop has reached after the entries of \<open>row\<close>, starting from 0:
  the sum of the weights as the runtime adds them, one after the other.
\<close>

definition rowTotal :: "runtime \<Rightarrow> DistributionRow \<Rightarrow> real" where
  "rowTotal rt row = foldl (numberAdd rt) 0 (map snd row)"

section \<open>Facts of the runtime\<close>

text \<open>
  Facts of JavaScript's operations that some of the theorems below rest on. Adding zero
  changes nothing, and adding a non-negative number never lowers a total: rounding to the
  nearest number is monotone and leaves a number as it is.
\<close>

definition addsZeroExactly :: "runtime \<Rightarrow> bool" where
  "addsZeroExactly rt = (\<forall>c. numberAdd rt c 0 = c)"


text \<open>
  On a string of ASCII characters \<^verbatim>\<open>toUpperCase\<close> maps the letters \<open>a\<close> to \<open>z\<close> to
  \<open>A\<close> to \<open>Z\<close> and keeps every other character. (A string is the list of the bytes of
  its UTF-8 encoding; what the runtime does with other characters is left open.)
\<close>

definition asciiUpper :: "char \<Rightarrow> char" where
  "asciiUpper c =
     (case map_of (zip ''abcdefghijklmnopqrstuvwxyz'' ''ABCDEFGHIJKLMNOPQRSTUVWXYZ'') c of
        Some C \<Rightarrow> C
      | None \<Rightarrow> c)"

definition upperCasesAscii :: "runtime \<Rightarrow> bool" where
  "upperCasesAscii rt =
     (\<forall>s. list_all (\<lambda>c. \<not> digit7 c) s \<longrightarrow> toUpperCase rt s = map asciiUpper s)"

text \<open>
  A runtime for the examples: exact sums and products, and the ASCII case mapping
  applied to every byte. It computes what JavaScript computes wherever the exact result
  is a number of the runtime, as for the integers and the binary fractions of the
  examples below, and on ASCII strings.
\<close>

definition exactAsciiRuntime :: runtime where
  "exactAsciiRuntime =
     \<lparr>numberAdd = (\<lambda>a b. a + b),
      numberMultiply = (\<lambda>a b. a * b),
      toUpperCase = map asciiUpper\<rparr>"

section \<open>Properties of the loop\<close>

lemma ladder_Some_key:
  "ladder rt row r cum = Some g \<Longrightarrow> g \<in> fst ` set row"
  by (induction rt row r cum rule: ladder.induct) (auto split: if_splits)

text \<open>
  The loop keeps the total at or below the draw as long as it goes on, so an entry that
  is returned has pushed the total past the draw; an entry of weight zero cannot.
\<close>

lemma ladder_Some_positive:
  assumes "ladder rt row r cum = Some g" "\<forall>(k, w) \<in> set row. 0 \<le> w" "cum \<le> r"
    "addsZeroExactly rt"
  shows "\<exists>w. (g, w) \<in> set row \<and> 0 < w"
  using assms
proof (induction rt row r cum rule: ladder.induct)
  case (1 rt r cum)
  then show ?case by simp
next
  case (2 rt k p entries r cum)
  show ?case
  proof (cases "r < numberAdd rt cum p")
    case True
    with 2(2) have g: "g = k" by simp
    have "p \<noteq> 0"
    proof
      assume "p = 0"
      with 2(5) have "numberAdd rt cum p = cum" by (simp add: addsZeroExactly_def)
      with True 2(4) show False by simp
    qed
    moreover have "0 \<le> p" using 2(3) by simp
    ultimately have "0 < p" by simp
    with g show ?thesis by auto
  next
    case False
    with 2 have "\<exists>w. (g, w) \<in> set entries \<and> 0 < w" by auto
    then show ?thesis by auto
  qed
qed



text \<open>
  The loop returns the key of the first entry, in the order of the row, at which the
  total exceeds the draw.
\<close>

lemma ladder_first_below:
  assumes "i < length row"
    "r < foldl (numberAdd rt) cum (map snd (take (Suc i) row))"
    "\<forall>j<i. \<not> r < foldl (numberAdd rt) cum (map snd (take (Suc j) row))"
  shows "ladder rt row r cum = Some (fst (row ! i))"
  using assms
proof (induction row arbitrary: i cum)
  case Nil
  then show ?case by simp
next
  case (Cons e entries)
  obtain k p where e: "e = (k, p)" by (cases e)
  show ?case
  proof (cases i)
    case 0
    with Cons.prems(2) show ?thesis by (simp add: e)
  next
    case (Suc n)
    from Cons.prems(3) Suc have nb: "\<not> r < numberAdd rt cum p"
      by (auto simp: e dest: spec[of _ 0])
    have "ladder rt entries r (numberAdd rt cum p) = Some (fst (entries ! n))"
    proof (rule Cons.IH)
      show "n < length entries" using Cons.prems(1) Suc by simp
      show "r < foldl (numberAdd rt) (numberAdd rt cum p) (map snd (take (Suc n) entries))"
        using Cons.prems(2) Suc by (simp add: e)
      show "\<forall>j<n. \<not> r < foldl (numberAdd rt) (numberAdd rt cum p) (map snd (take (Suc j) entries))"
      proof (intro allI impI)
        fix j assume "j < n"
        then have "Suc j < i" using Suc by simp
        with Cons.prems(3) have
          "\<not> r < foldl (numberAdd rt) cum (map snd (take (Suc (Suc j)) (e # entries)))"
          by blast
        then show "\<not> r < foldl (numberAdd rt) (numberAdd rt cum p) (map snd (take (Suc j) entries))"
          by (simp add: e)
      qed
    qed
    with nb Suc show ?thesis by (simp add: e)
  qed
qed

lemma default_row:
  "isBrowserbaseRegion base \<Longrightarrow>
     \<exists>rest. defaultDistributions base = Some ((base, 100) # rest)"
  by (auto simp: isBrowserbaseRegion_def BrowserbaseRegions_def defaultDistributions_def)

section \<open>Properties of the example runtime\<close>

lemma exact_addsZeroExactly: "addsZeroExactly exactAsciiRuntime"
  by (simp add: addsZeroExactly_def exactAsciiRuntime_def)


lemma exact_upperCasesAscii: "upperCasesAscii exactAsciiRuntime"
  by (simp add: upperCasesAscii_def exactAsciiRuntime_def)

lemma exact_add: "numberAdd exactAsciiRuntime a b = a + b"
  by (simp add: exactAsciiRuntime_def)

lemma exact_multiply: "numberMultiply exactAsciiRuntime a b = a * b"
  by (simp add: exactAsciiRuntime_def)

lemma exact_toUpperCase: "toUpperCase exactAsciiRuntime s = map asciiUpper s"
  by (simp add: exactAsciiRuntime_def)

section \<open>Properties of the resolver\<close>

lemma upper_PST: "upperCasesAscii rt \<Longrightarrow> toUpperCase rt ''PST'' = ''PST''"
  by (simp add: upperCasesAscii_def asciiUpper_def)

lemma upper_JST: "upperCasesAscii rt \<Longrightarrow> toUpperCase rt ''JST'' = ''JST''"
  by (simp add: upperCasesAscii_def asciiUpper_def)

lemma resolve_PST:
  "upperCasesAscii rt \<Longrightarrow> getRegionFromTimezoneAbbr rt (Some (JString ''PST'')) = ''us-west-2''"
  by (simp add: getRegionFromTimezoneAbbr_def tryGetRegionFromTimezoneAbbr_def
      timezoneAbbreviationMap_def upper_PST)

lemma resolve_JST:
  "upperCasesAscii rt \<Longrightarrow>
     getRegionFromTimezoneAbbr rt (Some (JString ''JST'')) = ''ap-southeast-1''"
  by (simp add: getRegionFromTimezoneAbbr_def tryGetRegionFromTimezoneAbbr_def
      timezoneAbbreviationMap_def upper_JST)

lemma map_of_value_in: "map_of xs k = Some v \<Longrightarrow> v \<in> snd ` set xs"
  by (induction xs) (auto split: if_splits)

lemma timezoneAbbreviationMap_region:
  assumes "timezoneAbbreviationMap k = Some g"
  shows "isBrowserbaseRegion g"
proof -
  from assms have "g \<in> snd ` set
    [(''EST'', ''us-east-1''), (''EDT'', ''us-east-1''), (''PST'', ''us-west-2''),
     (''PDT'', ''us-west-2''), (''MST'', ''us-west-2''), (''MDT'', ''us-west-2''),
     (''CST'', ''us-east-1''), (''CDT'', ''us-east-1''), (''GMT'', ''eu-central-1''),
     (''BST'', ''eu-central-1''), (''CET'', ''eu-central-1''), (''CEST'', ''eu-central-1''),
     (''EET'', ''eu-central-1''), (''EEST'', ''eu-central-1''), (''WET'', ''eu-central-1''),
     (''WEST'', ''eu-central-1''), (''JST'', ''ap-southeast-1''), (''KST'', ''ap-southeast-1''),
     (''IST'', ''ap-southeast-1''), (''AEST'', ''ap-southeast-1''), (''AEDT'', ''ap-southeast-1''),
     (''AWST'', ''ap-southeast-1''), (''NZST'', ''ap-southeast-1''), (''NZDT'', ''ap-southeast-1'')]"
    unfolding timezoneAbbreviationMap_def by (rule map_of_value_in)
  then have "g \<in> {''us-east-1'', ''us-west-2'', ''eu-central-1'', ''ap-southeast-1''}"
    by simp blast
  then show ?thesis
    unfolding isBrowserbaseRegion_def BrowserbaseRegions_def by auto
qed

lemma isBrowserbaseRegion_nonempty: "isBrowserbaseRegion g \<Longrightarrow> g \<noteq> []"
  by (auto simp: isBrowserbaseRegion_def BrowserbaseRegions_def)

lemma resolve_string:
  assumes "s \<noteq> []"
  shows "getRegionFromTimezoneAbbr rt (Some (JString s)) =
     (case timezoneAbbreviationMap (toUpperCase rt s) of
        Some g \<Rightarrow> g
      | None \<Rightarrow> ''us-west-2'')"
proof (cases "timezoneAbbreviationMap (toUpperCase rt s)")
  case None
  with assms show ?thesis
    by (simp add: getRegionFromTimezoneAbbr_def tryGetRegionFromTimezoneAbbr_def)
next
  case (Some g)
  then have "g \<noteq> []"
    by (intro isBrowserbaseRegion_nonempty timezoneAbbreviationMap_region)
  with Some assms show ?thesis
    by (simp add: getRegionFromTimezoneAbbr_def tryGetRegionFromTimezoneAbbr_def)
qed

lemma resolve_not_string:
  assumes "\<forall>s. v \<noteq> Some (JString s)"
  shows "getRegionFromTimezoneAbbr rt v = ''us-west-2''"
proof (cases v)
  case None
  then show ?thesis
    by (simp add: getRegionFromTimezoneAbbr_def tryGetRegionFromTimezoneAbbr_def)
next
  case (Some j)
  with assms show ?thesis
    by (cases j) (simp_all add: getRegionFromTimezoneAbbr_def tryGetRegionFromTimezoneAbbr_def)
qed

lemma resolve_error:
  "tryGetRegionFromTimezoneAbbr rt v = Inl e \<Longrightarrow> getRegionFromTimezoneAbbr rt v = ''us-west-2''"
  by (simp add: getRegionFromTimezoneAbbr_def)

lemma default_enumerated: "isBrowserbaseRegion ''us-west-2''"
  by (simp add: isBrowserbaseRegion_def BrowserbaseRegions_def)

lemma resolve_enumerated: "isBrowserbaseRegion (getRegionFromTimezoneAbbr rt v)"
proof (cases "\<exists>s. v = Some (JString s)")
  case False
  then have "getRegionFromTimezoneAbbr rt v = ''us-west-2''"
    by (intro resolve_not_string) simp
  then show ?thesis by (simp only: default_enumerated)
next
  case True
  then obtain s where v: "v = Some (JString s)" by blast
  show ?thesis
  proof (cases "s = []")
    case True
    with v have "getRegionFromTimezoneAbbr rt v = ''us-west-2''"
      by (simp add: getRegionFromTimezoneAbbr_def tryGetRegionFromTimezoneAbbr_def)
    then show ?thesis by (simp only: default_enumerated)
  next
    case False
    note ne = this
    show ?thesis
    proof (cases "timezoneAbbreviationMap (toUpperCase rt s)")
      case None
      with ne v have "getRegionFromTimezoneAbbr rt v = ''us-west-2''"
        by (simp add: resolve_string)
      then show ?thesis by (simp only: default_enumerated)
    next
      case (Some g)
      with ne v have "getRegionFromTimezoneAbbr rt v = g"
        by (simp add: resolve_string)
      with timezoneAbbreviationMap_region[OF Some] show ?thesis by simp
    qed
  qed
qed

section \<open>The claims\<close>

text \<open>
  In the statements below \<open>u\<close> is the value of \<^verbatim>\<open>Math.random()\<close>, and the draw
  \<open>r\<close> of the claims is \<open>numberMultiply rt u 100\<close>, the value of
  \<^verbatim>\<open>Math.random() * 100\<close>.
\<close>

text \<open>
  C1, as the program has it. For every base and every table with a row for that base, the
  selector walks the entries of the row in the row's own order (the order
  \<^verbatim>\<open>Object.entries\<close> yields them, and only the keys the row has), adding each weight to
  the running total, and returns the key of the first entry at which the draw is below
  the total: if entry \<open>i\<close> is the first at which the total, added up by the runtime
  entry after entry, exceeds the draw, the result is the key of entry \<open>i\<close>.
\<close>

theorem selector_walks_row_in_entry_order:
  assumes "distributions base = Some row" "i < length row"
    "numberMultiply rt u 100 < rowTotal rt (take (Suc i) row)"
    "\<forall>j<i. \<not> numberMultiply rt u 100 < rowTotal rt (take (Suc j) row)"
  shows "selectRegionWithProbability rt base distributions u = fst (row ! i)"
proof -
  have "ladder rt row (numberMultiply rt u 100) 0 = Some (fst (row ! i))"
    using assms(2-4) unfolding rowTotal_def by (intro ladder_first_below)
  with assms(1) show ?thesis
    by (simp add: selectRegionWithProbability_def selectPath_def)
qed

theorem selector_walks_row_in_entry_order_witness:
  "[''us-west-2'' \<mapsto> [(''us-east-1'', 30), (''us-west-2'', 70)]] ''us-west-2''
      = Some [(''us-east-1'', 30), (''us-west-2'', 70)]
   \<and> (1::nat) < length [(''us-east-1'', 30::real), (''us-west-2'', 70)]
   \<and> numberMultiply exactAsciiRuntime (1 / 2) 100
        < rowTotal exactAsciiRuntime (take (Suc 1) [(''us-east-1'', 30), (''us-west-2'', 70)])
   \<and> \<not> numberMultiply exactAsciiRuntime (1 / 2) 100
        < rowTotal exactAsciiRuntime (take (Suc 0) [(''us-east-1'', 30), (''us-west-2'', 70)])
   \<and> selectRegionWithProbability exactAsciiRuntime ''us-west-2''
        [''us-west-2'' \<mapsto> [(''us-east-1'', 30), (''us-west-2'', 70)]] (1 / 2) = ''us-west-2''"
  using selector_walks_row_in_entry_order
    [of "[''us-west-2'' \<mapsto> [(''us-east-1'', 30), (''us-west-2'', 70)]]" "''us-west-2''"
        "[(''us-east-1'', 30), (''us-west-2'', 70)]" 1 exactAsciiRuntime "1 / 2"]
  by (simp add: rowTotal_def exact_add exact_multiply)

text \<open>
  C1 as stated fails: the order of the walk is the order of the row's entries, not a fixed
  enumeration of the regions. Two rows that give every region the same weight, and differ
  only in the order of their entries, select different regions at the draw 25.
\<close>

theorem selector_order_counterexample:
  "map_of [(''us-west-2'', 50::real), (''us-east-1'', 50), (''eu-central-1'', 0), (''ap-southeast-1'', 0)]
     = map_of [(''us-east-1'', 50), (''us-west-2'', 50), (''eu-central-1'', 0), (''ap-southeast-1'', 0)]
   \<and> selectRegionWithProbability exactAsciiRuntime ''us-west-2''
        [''us-west-2'' \<mapsto>
           [(''us-west-2'', 50), (''us-east-1'', 50), (''eu-central-1'', 0), (''ap-southeast-1'', 0)]]
        (1 / 4) = ''us-west-2''
   \<and> selectRegionWithProbability exactAsciiRuntime ''us-west-2''
        [''us-west-2'' \<mapsto>
           [(''us-east-1'', 50), (''us-west-2'', 50), (''eu-central-1'', 0), (''ap-southeast-1'', 0)]]
        (1 / 4) = ''us-east-1''"
proof -
  have "map_of [(''us-west-2'', 50::real), (''us-east-1'', 50), (''eu-central-1'', 0), (''ap-southeast-1'', 0)]
     = map_of [(''us-east-1'', 50), (''us-west-2'', 50), (''eu-central-1'', 0), (''ap-southeast-1'', 0)]"
    by (rule ext) simp
  then show ?thesis
    by (simp add: selectRegionWithProbability_def selectPath_def exact_add exact_multiply)
qed

text \<open>
  C2, as the program has it. For every base of the enumeration and every table whose row
  for that base, if there is one, has only keys of the enumeration, the result of the
  selector is one of the four regions.
\<close>

theorem selector_result_enumerated:
  assumes "isBrowserbaseRegion base" "rowKeysEnumerated distributions base"
  shows "isBrowserbaseRegion (selectRegionWithProbability rt base distributions u)"
proof (cases "selectPath rt base distributions u")
  case (Picked g)
  then obtain row where row: "distributions base = Some row"
    and l: "ladder rt row (numberMultiply rt u 100) 0 = Some g"
    by (auto simp: selectPath_def split: option.splits)
  from ladder_Some_key[OF l] obtain w where "(g, w) \<in> set row" by auto
  with assms(2) row have "isBrowserbaseRegion g"
    by (auto simp: rowKeysEnumerated_def list_all_iff)
  with Picked show ?thesis by (simp add: selectRegionWithProbability_def)
qed (simp_all add: selectRegionWithProbability_def assms(1))

theorem selector_result_enumerated_witness:
  "isBrowserbaseRegion ''us-east-1'' \<and> rowKeysEnumerated defaultDistributions ''us-east-1''
   \<and> isBrowserbaseRegion
        (selectRegionWithProbability exactAsciiRuntime ''us-east-1'' defaultDistributions (1 / 2))"
proof -
  have h1: "isBrowserbaseRegion ''us-east-1''"
    by (simp add: isBrowserbaseRegion_def BrowserbaseRegions_def)
  have h2: "rowKeysEnumerated defaultDistributions ''us-east-1''"
    by (simp add: rowKeysEnumerated_def defaultDistributions_def isBrowserbaseRegion_def
        BrowserbaseRegions_def)
  from h1 h2 selector_result_enumerated [OF h1 h2, of exactAsciiRuntime "1 / 2"]
  show ?thesis by simp
qed

text \<open>
  C2 as stated fails: a key of the row is returned as it is, with no check against the
  enumeration. A row with the single key \<^verbatim>\<open>mars-1\<close> makes the selector return
  \<^verbatim>\<open>mars-1\<close> for the base \<^verbatim>\<open>us-west-2\<close>; there is no fallback to the base.
\<close>

theorem selector_out_of_enumeration_counterexample:
  "isBrowserbaseRegion ''us-west-2''
   \<and> selectRegionWithProbability exactAsciiRuntime ''us-west-2''
        [''us-west-2'' \<mapsto> [(''mars-1'', 100)]] (1 / 2)
       = ''mars-1''
   \<and> \<not> isBrowserbaseRegion ''mars-1''"
  by (simp add: selectRegionWithProbability_def selectPath_def isBrowserbaseRegion_def
      BrowserbaseRegions_def exact_add exact_multiply)

text \<open>
  C3. Round trip: for every base region and every draw in \<open>[0, 100)\<close>, selecting with
  the static default table returns the base region unchanged. In particular the
  abbreviation \<^verbatim>\<open>PST\<close> ends in \<^verbatim>\<open>us-west-2\<close> and \<^verbatim>\<open>JST\<close> in \<^verbatim>\<open>ap-southeast-1\<close>
  under the default table, whatever the draw. Of the runtime this takes that 0 plus 100
  is 100 and that \<^verbatim>\<open>toUpperCase\<close> is the ASCII mapping on ASCII strings.
\<close>

theorem default_table_round_trip:
  assumes "isBrowserbaseRegion base"
    "0 \<le> numberMultiply rt u 100" "numberMultiply rt u 100 < 100"
    "numberAdd rt 0 100 = 100" "upperCasesAscii rt"
  shows "selectRegionWithProbability rt base defaultDistributions u = base
    \<and> selectRegionWithProbability rt (getRegionFromTimezoneAbbr rt (Some (JString ''PST'')))
          defaultDistributions u = ''us-west-2''
    \<and> selectRegionWithProbability rt (getRegionFromTimezoneAbbr rt (Some (JString ''JST'')))
          defaultDistributions u = ''ap-southeast-1''"
proof -
  have sel: "selectRegionWithProbability rt b defaultDistributions u = b"
    if "isBrowserbaseRegion b" for b
  proof -
    from default_row[OF that] obtain rest
      where "defaultDistributions b = Some ((b, 100) # rest)" by blast
    with assms(3,4) show ?thesis
      by (simp add: selectRegionWithProbability_def selectPath_def)
  qed
  have "isBrowserbaseRegion ''us-west-2''" "isBrowserbaseRegion ''ap-southeast-1''"
    by (simp_all add: isBrowserbaseRegion_def BrowserbaseRegions_def)
  with sel assms(1) show ?thesis
    by (simp add: resolve_PST[OF assms(5)] resolve_JST[OF assms(5)])
qed

theorem default_table_round_trip_witness:
  "isBrowserbaseRegion ''eu-central-1''
    \<and> 0 \<le> numberMultiply exactAsciiRuntime (127 / 128) 100
    \<and> numberMultiply exactAsciiRuntime (127 / 128) 100 < 100
    \<and> numberAdd exactAsciiRuntime 0 100 = 100
    \<and> upperCasesAscii exactAsciiRuntime
    \<and> selectRegionWithProbability exactAsciiRuntime ''eu-central-1'' defaultDistributions
          (127 / 128) = ''eu-central-1''
    \<and> selectRegionWithProbability exactAsciiRuntime
          (getRegionFromTimezoneAbbr exactAsciiRuntime (Some (JString ''PST'')))
          defaultDistributions (127 / 128) = ''us-west-2''
    \<and> selectRegionWithProbability exactAsciiRuntime
          (getRegionFromTimezoneAbbr exactAsciiRuntime (Some (JString ''JST'')))
          defaultDistributions (127 / 128) = ''ap-southeast-1''"
proof -
  have h1: "isBrowserbaseRegion ''eu-central-1''"
    by (simp add: isBrowserbaseRegion_def BrowserbaseRegions_def)
  have h2: "0 \<le> numberMultiply exactAsciiRuntime (127 / 128) 100"
    by (simp add: exact_multiply)
  have h3: "numberMultiply exactAsciiRuntime (127 / 128) 100 < 100"
    by (simp add: exact_multiply)
  have h4: "numberAdd exactAsciiRuntime 0 100 = 100"
    by (simp add: exact_add)
  from h1 h2 h3 h4 exact_upperCasesAscii
    default_table_round_trip [OF h1 h2 h3 h4 exact_upperCasesAscii]
  show ?thesis by simp
qed

text \<open>
  C4. The resolver is total and always yields a region of the enumeration: absent and
  empty input give \<^verbatim>\<open>us-west-2\<close>; a non-empty string is uppercased, by the runtime's
  \<^verbatim>\<open>toUpperCase\<close> whatever it does, and looked up in the abbreviation map, giving the mapped region if there is one and \<^verbatim>\<open>us-west-2\<close> if not;
  every input that is not a string, and every error of the guarded block, gives
  \<^verbatim>\<open>us-west-2\<close>.
\<close>

theorem resolver_total_with_default:
  "getRegionFromTimezoneAbbr rt None = ''us-west-2''
   \<and> getRegionFromTimezoneAbbr rt (Some (JString [])) = ''us-west-2''
   \<and> (s \<noteq> [] \<longrightarrow> getRegionFromTimezoneAbbr rt (Some (JString s)) =
         (case timezoneAbbreviationMap (toUpperCase rt s) of
            Some g \<Rightarrow> g
          | None \<Rightarrow> ''us-west-2''))
   \<and> ((\<forall>s. v \<noteq> Some (JString s)) \<longrightarrow> getRegionFromTimezoneAbbr rt v = ''us-west-2'')
   \<and> (tryGetRegionFromTimezoneAbbr rt v = Inl e \<longrightarrow> getRegionFromTimezoneAbbr rt v = ''us-west-2'')
   \<and> isBrowserbaseRegion (getRegionFromTimezoneAbbr rt v)"
proof -
  have "getRegionFromTimezoneAbbr rt None = ''us-west-2''"
    "getRegionFromTimezoneAbbr rt (Some (JString [])) = ''us-west-2''"
    by (simp_all add: getRegionFromTimezoneAbbr_def tryGetRegionFromTimezoneAbbr_def)
  then show ?thesis
    using resolve_string[of s rt] resolve_not_string[of v rt] resolve_error[of rt v e]
      resolve_enumerated[of rt v]
    by blast
qed

theorem resolver_total_with_default_witness:
  "getRegionFromTimezoneAbbr exactAsciiRuntime (Some (JString ''cest'')) = ''eu-central-1''
   \<and> getRegionFromTimezoneAbbr exactAsciiRuntime (Some (JString ''XYZ'')) = ''us-west-2''
   \<and> tryGetRegionFromTimezoneAbbr exactAsciiRuntime (Some (JNumber 5)) = Inl TypeError
   \<and> getRegionFromTimezoneAbbr exactAsciiRuntime (Some (JNumber 5)) = ''us-west-2''
   \<and> isBrowserbaseRegion (getRegionFromTimezoneAbbr exactAsciiRuntime (Some (JNumber 5)))"
proof -
  have t: "tryGetRegionFromTimezoneAbbr exactAsciiRuntime (Some (JNumber 5)) = Inl TypeError"
    by (simp add: tryGetRegionFromTimezoneAbbr_def)
  have u1: "timezoneAbbreviationMap (toUpperCase exactAsciiRuntime ''cest'') = Some ''eu-central-1''"
    by (simp add: timezoneAbbreviationMap_def exact_toUpperCase asciiUpper_def)
  have u2: "timezoneAbbreviationMap (toUpperCase exactAsciiRuntime ''XYZ'') = None"
    by (simp add: timezoneAbbreviationMap_def exact_toUpperCase asciiUpper_def)
  show ?thesis
    using resolver_total_with_default
        [of exactAsciiRuntime "''cest''" "Some (JNumber 5)" TypeError]
      resolver_total_with_default
        [of exactAsciiRuntime "''XYZ''" "Some (JNumber 5)" TypeError] t u1 u2
    by simp
qed



text \<open>
  C6, as the program has it. When the fetch of the configuration throws or yields nothing,
  or the fetched configuration has no \<^verbatim>\<open>regionDistribution\<close>, the static default table
  is used whole. When the fetched configuration has a \<^verbatim>\<open>regionDistribution\<close>, that table
  is used whole, exactly as fetched; the two are never merged. Independently, the
  advanced-stealth flag and the proxies flag are each the fetched value when present and
  true when absent.
\<close>

theorem config_table_all_or_nothing:
  "distributionsOf (loadConfig (Inl e)) = defaultDistributions
   \<and> distributionsOf (loadConfig (Inr None)) = defaultDistributions
   \<and> (regionDistribution config = None \<longrightarrow>
        distributionsOf (loadConfig (Inr (Some config))) = defaultDistributions)
   \<and> (regionDistribution config = Some t \<longrightarrow>
        distributionsOf (loadConfig (Inr (Some config))) = t)
   \<and> advancedStealthOf (loadConfig (Inl e)) \<and> proxiesOf (loadConfig (Inl e))
   \<and> advancedStealthOf (loadConfig (Inr None)) \<and> proxiesOf (loadConfig (Inr None))
   \<and> advancedStealthOf (loadConfig (Inr (Some config))) =
        (case advancedStealth config of None \<Rightarrow> True | Some b \<Rightarrow> b)
   \<and> proxiesOf (loadConfig (Inr (Some config))) =
        (case proxies config of None \<Rightarrow> True | Some b \<Rightarrow> b)"
  by (simp add: distributionsOf_def loadConfig_def emptyConfig_def nullish_def
      advancedStealthOf_def proxiesOf_def)

theorem config_table_all_or_nothing_witness:
  "distributionsOf (loadConfig (Inl (Thrown ''EDGE_CONFIG''))) = defaultDistributions
   \<and> distributionsOf (loadConfig (Inr (Some
        \<lparr>advancedStealth = Some False, proxies = None, regionDistribution = None\<rparr>)))
       = defaultDistributions
   \<and> distributionsOf (loadConfig (Inr (Some
        \<lparr>advancedStealth = Some False, proxies = None,
         regionDistribution = Some [''us-west-2'' \<mapsto> [(''us-east-1'', 100)]]\<rparr>)))
       = [''us-west-2'' \<mapsto> [(''us-east-1'', 100)]]
   \<and> \<not> advancedStealthOf (loadConfig (Inr (Some
        \<lparr>advancedStealth = Some False, proxies = None, regionDistribution = None\<rparr>)))
   \<and> proxiesOf (loadConfig (Inr (Some
        \<lparr>advancedStealth = Some False, proxies = None, regionDistribution = None\<rparr>)))"
  using config_table_all_or_nothing
    [of "Thrown ''EDGE_CONFIG''"
        "\<lparr>advancedStealth = Some False, proxies = None, regionDistribution = None\<rparr>"
        "[''us-west-2'' \<mapsto> [(''us-east-1'', 100)]]"]
    config_table_all_or_nothing
    [of "Thrown ''EDGE_CONFIG''"
        "\<lparr>advancedStealth = Some False, proxies = None,
          regionDistribution = Some [''us-west-2'' \<mapsto> [(''us-east-1'', 100)]]\<rparr>"
        "[''us-west-2'' \<mapsto> [(''us-east-1'', 100)]]"]
  by simp

text \<open>
  C6 as stated fails for a partial table: a fetched table with a row for \<^verbatim>\<open>us-west-2\<close>
  only is not replaced by the default table. It has no row for \<^verbatim>\<open>us-east-1\<close> where the
  default table has one, and it routes the abbreviation \<^verbatim>\<open>PST\<close> to \<^verbatim>\<open>us-east-1\<close>.
\<close>

theorem partial_table_counterexample:
  "distributionsOf (loadConfig (Inr (Some
        \<lparr>advancedStealth = None, proxies = None,
         regionDistribution = Some [''us-west-2'' \<mapsto> [(''us-east-1'', 100)]]\<rparr>))) ''us-east-1''
     = None
   \<and> defaultDistributions ''us-east-1'' \<noteq> None
   \<and> distributionsOf (loadConfig (Inr (Some
        \<lparr>advancedStealth = None, proxies = None,
         regionDistribution = Some [''us-west-2'' \<mapsto> [(''us-east-1'', 100)]]\<rparr>)))
     \<noteq> defaultDistributions
   \<and> selectRegionWithProbability exactAsciiRuntime
        (getRegionFromTimezoneAbbr exactAsciiRuntime (Some (JString ''PST'')))
        (distributionsOf (loadConfig (Inr (Some
          \<lparr>advancedStealth = None, proxies = None,
           regionDistribution = Some [''us-west-2'' \<mapsto> [(''us-east-1'', 100)]]\<rparr>)))) (1 / 2)
     = ''us-east-1''"
proof -
  let ?t = "distributionsOf (loadConfig (Inr (Some
        \<lparr>advancedStealth = None, proxies = None,
         regionDistribution = Some [''us-west-2'' \<mapsto> [(''us-east-1'', 100)]]\<rparr>)))"
  have t: "?t = [''us-west-2'' \<mapsto> [(''us-east-1'', 100)]]"
    by (simp add: distributionsOf_def loadConfig_def nullish_def)
  have a: "?t ''us-east-1'' = None" by (simp add: t)
  have b: "defaultDistributions ''us-east-1'' \<noteq> None"
    by (simp add: defaultDistributions_def)
  from a b have c: "?t \<noteq> defaultDistributions" by metis
  have d: "selectRegionWithProbability exactAsciiRuntime
        (getRegionFromTimezoneAbbr exactAsciiRuntime (Some (JString ''PST''))) ?t (1 / 2)
     = ''us-east-1''"
    by (simp add: t resolve_PST[OF exact_upperCasesAscii] selectRegionWithProbability_def
        selectPath_def exact_add exact_multiply)
  from a b c d show ?thesis by blast
qed

text \<open>
  C7. Once the client is constructed, \<^verbatim>\<open>createSession\<close> is the provider's
  \<^verbatim>\<open>sessions.create\<close> on a request with viewport 2560 by 1440, ad blocking on, the
  stealth flag of the configuration (on when absent), the OS hint \<^verbatim>\<open>windows\<close> when the
  stealth flag is on and \<^verbatim>\<open>linux\<close> when it is off (never absent), the proxies flag of the
  configuration (on when absent), keep-alive on, and the region the selector returns for
  the resolved base region.
\<close>

theorem session_request_fields:
  "(newBrowserbase c = Inr () \<longrightarrow>
       createSession c timezone = sessions_create c (sessionCreateParams c timezone))
   \<and> viewport (browserSettings (sessionCreateParams c timezone)) = \<lparr>width = 2560, height = 1440\<rparr>
   \<and> blockAds (browserSettings (sessionCreateParams c timezone))
   \<and> advancedStealthSetting (browserSettings (sessionCreateParams c timezone)) =
        (case advancedStealth (loadConfig (getAll c)) of None \<Rightarrow> True | Some b \<Rightarrow> b)
   \<and> os (browserSettings (sessionCreateParams c timezone)) =
        Some (if advancedStealthSetting (browserSettings (sessionCreateParams c timezone))
              then ''windows'' else ''linux'')
   \<and> proxiesParam (sessionCreateParams c timezone) =
        (case proxies (loadConfig (getAll c)) of None \<Rightarrow> True | Some b \<Rightarrow> b)
   \<and> keepAlive (sessionCreateParams c timezone)
   \<and> region (sessionCreateParams c timezone) =
        selectRegionWithProbability (js c) (getRegionFromTimezoneAbbr (js c) timezone)
          (distributionsOf (loadConfig (getAll c))) (Math_random c)"
  by (simp add: createSession_def sessionCreateParams_def browserSettingsOf_def
      advancedStealthOf_def proxiesOf_def nullish_def Let_def)

theorem session_request_fields_witness:
  "(let c = \<lparr>js = exactAsciiRuntime,
              BROWSERBASE_PROJECT_ID = ''project'',
              newBrowserbase = Inr (),
              getAll = Inr (Some \<lparr>advancedStealth = Some False, proxies = None,
                                  regionDistribution = None\<rparr>),
              Math_random = 1 / 2,
              sessions_create = (\<lambda>p. Inr \<lparr>session_id = ''s1'', connectUrl = region p\<rparr>),
              sessions_update = (\<lambda>i p. Inr ()),
              sessions_debug = (\<lambda>i. Inr ''debug'')\<rparr>;
        timezone = Some (JString ''JST'')
    in newBrowserbase c = Inr ()
     \<and> createSession c timezone = Inr \<lparr>session_id = ''s1'', connectUrl = ''ap-southeast-1''\<rparr>
     \<and> \<not> advancedStealthSetting (browserSettings (sessionCreateParams c timezone))
     \<and> os (browserSettings (sessionCreateParams c timezone)) = Some ''linux''
     \<and> proxiesParam (sessionCreateParams c timezone)
     \<and> region (sessionCreateParams c timezone) = ''ap-southeast-1'')"
  using session_request_fields
    [of "\<lparr>js = exactAsciiRuntime,
              BROWSERBASE_PROJECT_ID = ''project'',
              newBrowserbase = Inr (),
              getAll = Inr (Some \<lparr>advancedStealth = Some False, proxies = None,
                                  regionDistribution = None\<rparr>),
              Math_random = 1 / 2,
              sessions_create = (\<lambda>p. Inr \<lparr>session_id = ''s1'', connectUrl = region p\<rparr>),
              sessions_update = (\<lambda>i p. Inr ()),
              sessions_debug = (\<lambda>i. Inr ''debug'')\<rparr>" "Some (JString ''JST'')"]
  by (simp add: loadConfig_def distributionsOf_def nullish_def
      resolve_JST[OF exact_upperCasesAscii] selectRegionWithProbability_def selectPath_def
      defaultDistributions_def exact_add exact_multiply)

text \<open>
  C8. Every error of the guarded block of \<^verbatim>\<open>POST\<close>, in particular an error of
  \<^verbatim>\<open>createSession\<close> and an error of the debug-URL fetch, gives the one response with
  status 500 and payload \<^verbatim>\<open>{success: false, error: "Failed to create session"}\<close>, which
  holds nothing of the session or of the error. When both calls succeed, the response has
  status 200 and the payload \<^verbatim>\<open>{success: true, sessionId, sessionUrl, connectUrl}\<close>.
\<close>

theorem POST_failure_is_generic:
  "(tryPOST c request_json = Inl e \<longrightarrow> POST c request_json = failedToCreate)
   \<and> (request_json = Inr body \<and> property body ''timezone'' = Inr timezone
        \<and> createSession c timezone = Inl e \<longrightarrow> POST c request_json = failedToCreate)
   \<and> (request_json = Inr body \<and> property body ''timezone'' = Inr timezone
        \<and> createSession c timezone = Inr session
        \<and> getDebugUrl c (session_id session) = Inl e \<longrightarrow> POST c request_json = failedToCreate)
   \<and> (request_json = Inr body \<and> property body ''timezone'' = Inr timezone
        \<and> createSession c timezone = Inr session
        \<and> getDebugUrl c (session_id session) = Inr liveUrl \<longrightarrow>
          POST c request_json =
            \<lparr>status = 200,
             payload = JObject
               [(''success'', JBool True),
                (''sessionId'', JString (session_id session)),
                (''sessionUrl'', JString liveUrl),
                (''connectUrl'', JString (connectUrl session))]\<rparr>)
   \<and> failedToCreate =
        \<lparr>status = 500,
         payload = JObject
           [(''success'', JBool False), (''error'', JString ''Failed to create session'')]\<rparr>"
  by (simp add: POST_def tryPOST_def failedToCreate_def)

theorem POST_failure_is_generic_witness:
  "(let c = \<lparr>js = exactAsciiRuntime,
              BROWSERBASE_PROJECT_ID = ''project'',
              newBrowserbase = Inr (),
              getAll = Inl (Thrown ''EDGE_CONFIG''),
              Math_random = 1 / 2,
              sessions_create =
                (\<lambda>p. if region p = ''us-west-2'' then Inl (Thrown ''quota'')
                     else Inr \<lparr>session_id = ''s1'', connectUrl = ''wss://connect''\<rparr>),
              sessions_update = (\<lambda>i p. Inr ()),
              sessions_debug = (\<lambda>i. Inr ''https://debug'')\<rparr>
    in createSession c (Some (JString ''PST'')) = Inl (Thrown ''quota'')
     \<and> POST c (Inr (JObject [(''timezone'', JString ''PST'')])) =
          \<lparr>status = 500,
           payload = JObject
             [(''success'', JBool False), (''error'', JString ''Failed to create session'')]\<rparr>
     \<and> POST c (Inr (JObject [(''timezone'', JString ''JST'')])) =
          \<lparr>status = 200,
           payload = JObject
             [(''success'', JBool True),
              (''sessionId'', JString ''s1''),
              (''sessionUrl'', JString ''https://debug''),
              (''connectUrl'', JString ''wss://connect'')]\<rparr>)"
proof -
  let ?c = "\<lparr>js = exactAsciiRuntime,
              BROWSERBASE_PROJECT_ID = ''project'',
              newBrowserbase = Inr (),
              getAll = Inl (Thrown ''EDGE_CONFIG''),
              Math_random = 1 / 2,
              sessions_create =
                (\<lambda>p. if region p = ''us-west-2'' then Inl (Thrown ''quota'')
                     else Inr \<lparr>session_id = ''s1'', connectUrl = ''wss://connect''\<rparr>),
              sessions_update = (\<lambda>i p. Inr ()),
              sessions_debug = (\<lambda>i. Inr ''https://debug'')\<rparr>"
  have r1: "region (sessionCreateParams ?c (Some (JString ''PST''))) = ''us-west-2''"
    by (simp add: sessionCreateParams_def loadConfig_def distributionsOf_def nullish_def
        emptyConfig_def resolve_PST[OF exact_upperCasesAscii] selectRegionWithProbability_def
        selectPath_def defaultDistributions_def Let_def exact_add exact_multiply)
  have r2: "region (sessionCreateParams ?c (Some (JString ''JST''))) = ''ap-southeast-1''"
    by (simp add: sessionCreateParams_def loadConfig_def distributionsOf_def nullish_def
        emptyConfig_def resolve_JST[OF exact_upperCasesAscii] selectRegionWithProbability_def
        selectPath_def defaultDistributions_def Let_def exact_add exact_multiply)
  have c1: "createSession ?c (Some (JString ''PST'')) = Inl (Thrown ''quota'')"
    using r1 by (simp add: createSession_def)
  have c2: "createSession ?c (Some (JString ''JST''))
      = Inr \<lparr>session_id = ''s1'', connectUrl = ''wss://connect''\<rparr>"
    using r2 by (simp add: createSession_def)
  have d: "getDebugUrl ?c ''s1'' = Inr ''https://debug''"
    by (simp add: getDebugUrl_def)
  show ?thesis
    using
      POST_failure_is_generic
        [of ?c "Inr (JObject [(''timezone'', JString ''PST'')])" "Thrown ''quota''"
            "JObject [(''timezone'', JString ''PST'')]" "Some (JString ''PST'')"]
      POST_failure_is_generic
        [of ?c "Inr (JObject [(''timezone'', JString ''JST'')])" "Thrown ''quota''"
            "JObject [(''timezone'', JString ''JST'')]" "Some (JString ''JST'')"
            "\<lparr>session_id = ''s1'', connectUrl = ''wss://connect''\<rparr>" "''https://debug''"]
      c1 c2 d
    by (simp del: collaborators.simps)
qed

text \<open>
  C9. \<^verbatim>\<open>DELETE\<close> has no error branch. When the release call completes, the response is
  \<^verbatim>\<open>{success: true}\<close>; when it raises an error, that same error is the outcome of the
  handler; and every response the handler gives is \<^verbatim>\<open>{success: true}\<close>. The release
  call is \<^verbatim>\<open>sessions.update\<close> with the status \<^verbatim>\<open>REQUEST_RELEASE\<close>.
\<close>

theorem DELETE_has_no_error_branch:
  "(request_json = Inr body \<and> property body ''sessionId'' = Inr sessionId \<longrightarrow>
      (endSession c sessionId = Inr () \<longrightarrow>
         DELETE c request_json = Inr \<lparr>status = 200, payload = JObject [(''success'', JBool True)]\<rparr>)
    \<and> (endSession c sessionId = Inl e \<longrightarrow> DELETE c request_json = Inl e))
   \<and> (newBrowserbase c = Inr () \<longrightarrow>
        endSession c sessionId =
          sessions_update c sessionId
            \<lparr>updateProjectId = BROWSERBASE_PROJECT_ID c, updateStatus = ''REQUEST_RELEASE''\<rparr>)
   \<and> (DELETE c request_json = Inr resp \<longrightarrow>
        resp = \<lparr>status = 200, payload = JObject [(''success'', JBool True)]\<rparr>)"
proof -
  have a: "DELETE c request_json = Inr \<lparr>status = 200, payload = JObject [(''success'', JBool True)]\<rparr>"
    if "request_json = Inr body" "property body ''sessionId'' = Inr sessionId"
      "endSession c sessionId = Inr ()"
    using that by (simp add: DELETE_def)
  have b: "DELETE c request_json = Inl e"
    if "request_json = Inr body" "property body ''sessionId'' = Inr sessionId"
      "endSession c sessionId = Inl e"
    using that by (simp add: DELETE_def)
  have u: "endSession c sessionId =
          sessions_update c sessionId
            \<lparr>updateProjectId = BROWSERBASE_PROJECT_ID c, updateStatus = ''REQUEST_RELEASE''\<rparr>"
    if "newBrowserbase c = Inr ()"
    using that by (simp add: endSession_def)
  have d: "resp = \<lparr>status = 200, payload = JObject [(''success'', JBool True)]\<rparr>"
    if "DELETE c request_json = Inr resp"
    using that unfolding DELETE_def by (simp split: sum.splits)
  from a b u d show ?thesis by blast
qed

theorem DELETE_has_no_error_branch_witness:
  "(let c = \<lparr>js = exactAsciiRuntime,
              BROWSERBASE_PROJECT_ID = ''project'',
              newBrowserbase = Inr (),
              getAll = Inl (Thrown ''EDGE_CONFIG''),
              Math_random = 1 / 2,
              sessions_create = (\<lambda>p. Inl (Thrown ''quota'')),
              sessions_update =
                (\<lambda>i p. if i = Some (JString ''gone'') then Inl (Thrown ''not found'') else Inr ()),
              sessions_debug = (\<lambda>i. Inr ''https://debug'')\<rparr>
    in DELETE c (Inr (JObject [(''sessionId'', JString ''gone'')])) = Inl (Thrown ''not found'')
     \<and> DELETE c (Inr (JObject [(''sessionId'', JString ''s1'')])) =
          Inr \<lparr>status = 200, payload = JObject [(''success'', JBool True)]\<rparr>)"
proof -
  let ?c = "\<lparr>js = exactAsciiRuntime,
              BROWSERBASE_PROJECT_ID = ''project'',
              newBrowserbase = Inr (),
              getAll = Inl (Thrown ''EDGE_CONFIG''),
              Math_random = 1 / 2,
              sessions_create = (\<lambda>p. Inl (Thrown ''quota'')),
              sessions_update =
                (\<lambda>i p. if i = Some (JString ''gone'') then Inl (Thrown ''not found'') else Inr ()),
              sessions_debug = (\<lambda>i. Inr ''https://debug'')\<rparr>"
  have e1: "endSession ?c (Some (JString ''gone'')) = Inl (Thrown ''not found'')"
    by (simp add: endSession_def)
  have e2: "endSession ?c (Some (JString ''s1'')) = Inr ()"
    by (simp add: endSession_def)
  have p1: "property (JObject [(''sessionId'', JString ''gone'')]) ''sessionId''
      = Inr (Some (JString ''gone''))"
    by simp
  have p2: "property (JObject [(''sessionId'', JString ''s1'')]) ''sessionId''
      = Inr (Some (JString ''s1''))"
    by simp
  have d1: "DELETE ?c (Inr (JObject [(''sessionId'', JString ''gone'')])) = Inl (Thrown ''not found'')"
    using DELETE_has_no_error_branch
        [of "Inr (JObject [(''sessionId'', JString ''gone'')])"
            "JObject [(''sessionId'', JString ''gone'')]" "Some (JString ''gone'')" ?c
            "Thrown ''not found''", THEN conjunct1] p1 e1
    by blast
  have d2: "DELETE ?c (Inr (JObject [(''sessionId'', JString ''s1'')])) =
          Inr \<lparr>status = 200, payload = JObject [(''success'', JBool True)]\<rparr>"
    using DELETE_has_no_error_branch
        [of "Inr (JObject [(''sessionId'', JString ''s1'')])"
            "JObject [(''sessionId'', JString ''s1'')]" "Some (JString ''s1'')" ?c
            "Thrown ''not found''", THEN conjunct1] p2 e2
    by blast
  from d1 d2 show ?thesis unfolding Let_def by (rule conjI)
qed

text \<open>
  C10. For every base and every table whose row for that base has only non-negative
  weights, and every draw that is not negative (\<^verbatim>\<open>Math.random() * 100\<close> never is): a
  region returned from inside the loop is a key of the row listed with a strictly positive
  weight; a key listed with weight zero (keys of an object are distinct) is never returned
  from inside the loop; and the result of the selector is the base or a key of the row
  with a strictly positive weight. Of the runtime this takes that adding zero leaves the
  total as it is.
\<close>

theorem selector_result_base_or_positive_key:
  assumes "distributions base = Some row" "\<forall>(k, w) \<in> set row. 0 \<le> w"
    "0 \<le> numberMultiply rt u 100" "addsZeroExactly rt"
  shows "(selectPath rt base distributions u = Picked g \<longrightarrow> (\<exists>w. (g, w) \<in> set row \<and> 0 < w))
    \<and> (distinct (map fst row) \<and> (g, 0) \<in> set row \<longrightarrow>
          selectPath rt base distributions u \<noteq> Picked g)
    \<and> (selectRegionWithProbability rt base distributions u = base
        \<or> (\<exists>w. (selectRegionWithProbability rt base distributions u, w) \<in> set row \<and> 0 < w))"
proof -
  have picked: "\<exists>w. (h, w) \<in> set row \<and> 0 < w"
    if "selectPath rt base distributions u = Picked h" for h
  proof -
    from that assms(1) have l: "ladder rt row (numberMultiply rt u 100) 0 = Some h"
      by (simp add: selectPath_def split: option.splits)
    from l assms(2) assms(3) assms(4) show ?thesis by (rule ladder_Some_positive)
  qed
  have zero: "selectPath rt base distributions u \<noteq> Picked g"
    if "distinct (map fst row)" "(g, 0) \<in> set row"
  proof
    assume "selectPath rt base distributions u = Picked g"
    from picked[OF this] obtain w where "(g, w) \<in> set row" "0 < w" by blast
    with that have "w = 0" by (meson eq_key_imp_eq_value)
    with \<open>0 < w\<close> show False by simp
  qed
  have res: "selectRegionWithProbability rt base distributions u = base
        \<or> (\<exists>w. (selectRegionWithProbability rt base distributions u, w) \<in> set row \<and> 0 < w)"
  proof (cases "selectPath rt base distributions u")
    case (Picked h)
    with picked[OF Picked] show ?thesis by (simp add: selectRegionWithProbability_def)
  qed (simp_all add: selectRegionWithProbability_def)
  from picked zero res show ?thesis by blast
qed

theorem selector_result_base_or_positive_key_witness:
  "[''eu-central-1'' \<mapsto> [(''us-west-2'', 0), (''us-east-1'', 30)]] ''eu-central-1''
      = Some [(''us-west-2'', 0), (''us-east-1'', 30)]
    \<and> 0 \<le> numberMultiply exactAsciiRuntime (1 / 8) 100
    \<and> addsZeroExactly exactAsciiRuntime
    \<and> selectPath exactAsciiRuntime ''eu-central-1''
         [''eu-central-1'' \<mapsto> [(''us-west-2'', 0), (''us-east-1'', 30)]] (1 / 8)
        = Picked ''us-east-1''
    \<and> (''us-east-1'', 30) \<in> set [(''us-west-2'', 0), (''us-east-1'', 30::real)]
    \<and> selectPath exactAsciiRuntime ''eu-central-1''
         [''eu-central-1'' \<mapsto> [(''us-west-2'', 0), (''us-east-1'', 30)]] (1 / 8)
        \<noteq> Picked ''us-west-2''"
proof -
  have h: "0 \<le> numberMultiply exactAsciiRuntime (1 / 8) 100"
    by (simp add: exact_multiply)
  show ?thesis
    using h exact_addsZeroExactly
      selector_result_base_or_positive_key
        [of "[''eu-central-1'' \<mapsto> [(''us-west-2'', 0), (''us-east-1'', 30)]]" "''eu-central-1''"
            "[(''us-west-2'', 0), (''us-east-1'', 30)]" exactAsciiRuntime "1 / 8" "''us-west-2''"]
    by (simp add: selectPath_def exact_add exact_multiply)
qed

end
